theory Spec2Isabelle
  imports Complex_Main
begin

section \<open>Family groups of the recipe organizer: data model\<close>

text \<open>
  The family-group subsystem lives in \<^verbatim>\<open>controllers/familyController.ts\<close> and in the
  Mongoose model \<^verbatim>\<open>models/FamilyGroup\<close>. Object identifiers are compared in the source
  through their string form (\<^verbatim>\<open>member.userId.toString() === req.user.id\<close>), so an
  identifier is a string here. Strings are ASCII: a \<^typ>\<open>char\<close> is one byte, and the case
  conversions below only move the letters a-z and A-Z.
\<close>

type_synonym objectId = string

datatype memberRole = Admin | Member

record familyMember =
  userId :: objectId
  role :: memberRole
  joinedAt :: nat
  isActive :: bool

record familyGroupSettings =
  allowMemberInvites :: bool
  requireApprovalForRecipes :: bool
  sharedPantry :: bool
  sharedMealPlans :: bool
  sharedShoppingLists :: bool

record familyGroup =
  gid :: objectId
  name :: string
  description :: "string option"
  adminId :: objectId
  members :: "familyMember list"
  inviteCode :: string
  settings :: familyGroupSettings

record user =
  uid :: objectId
  email :: string

text \<open>The two collections the controller reads and writes.\<close>

record database =
  groups :: "familyGroup list"
  users :: "user list"

text \<open>
  \<^verbatim>\<open>new ApiError(message, statusCode)\<close>. A document that fails the schema's own
  validators on \<^verbatim>\<open>save()\<close> raises Mongoose's error instead, which is not an ApiError.
\<close>

datatype apiError = ApiError string nat | MongooseValidationError string

fun statusCode :: "apiError \<Rightarrow> nat option" where
  "statusCode (ApiError msg c) = Some c"
| "statusCode (MongooseValidationError msg) = None"

section \<open>String helpers of the runtime\<close>

definition toUpperChar :: "char \<Rightarrow> char" where
  "toUpperChar c =
     (if 97 \<le> (of_char c :: nat) \<and> (of_char c :: nat) \<le> 122
      then char_of ((of_char c :: nat) - 32) else c)"

definition toLowerChar :: "char \<Rightarrow> char" where
  "toLowerChar c =
     (if 65 \<le> (of_char c :: nat) \<and> (of_char c :: nat) \<le> 90
      then char_of ((of_char c :: nat) + 32) else c)"

definition toUpperCase :: "string \<Rightarrow> string" where
  "toUpperCase s = map toUpperChar s"

definition toLowerCase :: "string \<Rightarrow> string" where
  "toLowerCase s = map toLowerChar s"

text \<open>JavaScript's white space within ASCII: tab, line feed, vertical tab, form feed,
  carriage return and space.\<close>

definition isWhiteSpace :: "char \<Rightarrow> bool" where
  "isWhiteSpace c = ((of_char c :: nat) \<in> {9, 10, 11, 12, 13, 32})"

definition trim :: "string \<Rightarrow> string" where
  "trim s = rev (dropWhile isWhiteSpace (rev (dropWhile isWhiteSpace s)))"

text \<open>\<^verbatim>\<open>s.charAt(i)\<close> is the one-character string at index \<open>i\<close>, and the empty string
  when \<open>i\<close> is out of range.\<close>

definition charAt :: "string \<Rightarrow> nat \<Rightarrow> string" where
  "charAt s i = (if i < length s then [s ! i] else [])"

fun joinWith :: "string \<Rightarrow> string list \<Rightarrow> string" where
  "joinWith sep [] = []"
| "joinWith sep [x] = x"
| "joinWith sep (x # y # ys) = x @ sep @ joinWith sep (y # ys)"

section \<open>The invite-code generator\<close>

text \<open>
  \<^verbatim>\<open>Math.random()\<close> is modelled by a sequence of reals \<open>rnd\<close> and the position \<open>p\<close> of the
  next draw; its contract is that every draw lies in \<open>[0, 1)\<close>. The product with
  \<^verbatim>\<open>chars.length\<close> and \<^verbatim>\<open>Math.floor\<close> are taken over the reals.
\<close>

definition chars :: string where
  "chars = ''ABCDEFGHIJKLMNOPQRSTUVWXYZ0123456789''"

function generateInviteCode_loop ::
  "(nat \<Rightarrow> real) \<Rightarrow> nat \<Rightarrow> nat \<Rightarrow> string \<Rightarrow> string \<times> nat" where
  "generateInviteCode_loop rnd p i result =
     (if i < 8
      then generateInviteCode_loop rnd (p + 1) (i + 1)
             (result @ charAt chars (nat \<lfloor>rnd p * real (length chars)\<rfloor>))
      else (result, p))"
  by pat_completeness auto
termination
  by (relation "measure (\<lambda>(rnd, p, i, result). 8 - i)") auto

definition generateInviteCode :: "(nat \<Rightarrow> real) \<Rightarrow> nat \<Rightarrow> string \<times> nat" where
  "generateInviteCode rnd p = generateInviteCode_loop rnd p 0 []"

section \<open>Queries and in-place updates of documents\<close>

definition findById :: "objectId \<Rightarrow> database \<Rightarrow> familyGroup option" where
  "findById i db = find (\<lambda>g. gid g = i) (groups db)"

definition findOne_adminId :: "objectId \<Rightarrow> database \<Rightarrow> familyGroup option" where
  "findOne_adminId u db = find (\<lambda>g. adminId g = u) (groups db)"

definition findOne_inviteCode :: "string \<Rightarrow> database \<Rightarrow> familyGroup option" where
  "findOne_inviteCode c db = find (\<lambda>g. inviteCode g = c) (groups db)"

definition findOne_email :: "string \<Rightarrow> database \<Rightarrow> user option" where
  "findOne_email e db = find (\<lambda>u. email u = e) (users db)"

text \<open>
  \<^verbatim>\<open>const member = familyGroup.members.find(p)\<close> yields a reference to the first element
  that satisfies \<open>p\<close>; an assignment to a field of \<^verbatim>\<open>member\<close> changes that element of the
  array in place. \<open>mutateFound p f xs\<close> is the array after such an assignment \<open>f\<close>.
\<close>

fun mutateFound :: "('a \<Rightarrow> bool) \<Rightarrow> ('a \<Rightarrow> 'a) \<Rightarrow> 'a list \<Rightarrow> 'a list" where
  "mutateFound p f [] = []"
| "mutateFound p f (x # xs) = (if p x then f x # xs else x # mutateFound p f xs)"

text \<open>\<^verbatim>\<open>familyGroup.save()\<close> of a document that was loaded from the collection writes it
  back under its \<^verbatim>\<open>_id\<close>; \<^verbatim>\<open>save()\<close> of a document made with \<^verbatim>\<open>new\<close> inserts it.\<close>

definition save :: "familyGroup \<Rightarrow> database \<Rightarrow> database" where
  "save g db = db\<lparr>groups := mutateFound (\<lambda>h. gid h = gid g) (\<lambda>h. g) (groups db)\<rparr>"

definition insertNew :: "familyGroup \<Rightarrow> database \<Rightarrow> database" where
  "insertNew g db = db\<lparr>groups := groups db @ [g]\<rparr>"

text \<open>The validators of \<^verbatim>\<open>familyGroupSchema\<close> that run on \<^verbatim>\<open>save()\<close>: \<^verbatim>\<open>required\<close> (for a
  string: present and not empty) and \<^verbatim>\<open>maxlength\<close>. The setters \<^verbatim>\<open>trim\<close> and \<^verbatim>\<open>uppercase\<close> of
  the schema are not repeated here: the controller hands over a trimmed name and a code
  over A-Z, 0-9.\<close>

definition familyGroupSchema_errors :: "familyGroup \<Rightarrow> string list" where
  "familyGroupSchema_errors g =
     (if name g = [] then [''name''] else [])
     @ (if length (name g) > 50 then [''name''] else [])
     @ (case description g of None \<Rightarrow> [] | Some d \<Rightarrow> if length d > 200 then [''description''] else [])
     @ (if inviteCode g = [] then [''inviteCode''] else [])"

section \<open>Helper functions of the controller\<close>

definition isUserFamilyAdmin :: "objectId \<Rightarrow> familyGroup \<Rightarrow> bool" where
  "isUserFamilyAdmin u familyGroup = (adminId familyGroup = u)"


text \<open>\<^verbatim>\<open>familyGroup.members.filter(m => m.role === 'admin' && m.isActive).length\<close>\<close>

definition adminCount :: "familyGroup \<Rightarrow> nat" where
  "adminCount familyGroup =
     length (filter (\<lambda>m. role m = Admin \<and> isActive m) (members familyGroup))"

definition memberCount :: "familyGroup \<Rightarrow> nat" where
  "memberCount familyGroup = length (filter isActive (members familyGroup))"

section \<open>Validation schemas\<close>

text \<open>
  A request body is taken as typed JSON: the fields have the types the schemas ask for.
  What the schemas check beyond the types is modelled: lengths, the e-mail format (the
  pattern of the validation library is the parameter \<open>isEmail\<close>), and the normalisations
  \<^verbatim>\<open>trim\<close>, \<^verbatim>\<open>toLowerCase\<close>, \<^verbatim>\<open>toUpperCase\<close>, applied in the order the schema lists them.
\<close>

definition zodError :: "string list \<Rightarrow> apiError" where
  "zodError messages = ApiError (''Validation error: '' @ joinWith '', '' messages) 400"

record settingsInput =
  in_allowMemberInvites :: "bool option"
  in_requireApprovalForRecipes :: "bool option"
  in_sharedPantry :: "bool option"
  in_sharedMealPlans :: "bool option"
  in_sharedShoppingLists :: "bool option"

record createBody =
  body_name :: string
  body_description :: "string option"
  body_settings :: "settingsInput option"

record groupData =
  data_name :: string
  data_description :: "string option"
  data_settings :: "familyGroupSettings option"

definition orDefault :: "bool option \<Rightarrow> bool \<Rightarrow> bool" where
  "orDefault v d = (case v of None \<Rightarrow> d | Some b \<Rightarrow> b)"

definition settingsSchema :: "settingsInput \<Rightarrow> familyGroupSettings" where
  "settingsSchema s =
     \<lparr>allowMemberInvites = orDefault (in_allowMemberInvites s) True,
      requireApprovalForRecipes = orDefault (in_requireApprovalForRecipes s) False,
      sharedPantry = orDefault (in_sharedPantry s) True,
      sharedMealPlans = orDefault (in_sharedMealPlans s) True,
      sharedShoppingLists = orDefault (in_sharedShoppingLists s) True\<rparr>"

definition createFamilyGroupSchema :: "createBody \<Rightarrow> string list + groupData" where
  "createFamilyGroupSchema body =
     (let issues =
        (if length (body_name body) < 1 then [''Family group name is required''] else [])
        @ (if length (body_name body) > 50 then [''Name too long''] else [])
        @ (case body_description body of
             None \<Rightarrow> []
           | Some d \<Rightarrow> if length d > 200 then [''Description too long''] else [])
      in if issues = []
         then Inr \<lparr>data_name = trim (body_name body),
                   data_description = body_description body,
                   data_settings = map_option settingsSchema (body_settings body)\<rparr>
         else Inl issues)"

definition inviteMemberSchema :: "(string \<Rightarrow> bool) \<Rightarrow> string \<Rightarrow> string list + string" where
  "inviteMemberSchema isEmail e =
     (if isEmail e then Inr (trim (toLowerCase e)) else Inl [''Invalid email format''])"

record memberUpdates =
  upd_role :: "memberRole option"
  upd_isActive :: "bool option"

definition joinByInviteCodeSchema :: "string \<Rightarrow> string list + string" where
  "joinByInviteCodeSchema c =
     (if length c < 1 then Inl [''Invite code is required''] else Inr (toUpperCase (trim c)))"

text \<open>\<^verbatim>\<open>Object.assign(member, updates)\<close>: the fields present in \<open>updates\<close> overwrite those of
  the member.\<close>

definition objectAssign :: "familyMember \<Rightarrow> memberUpdates \<Rightarrow> familyMember" where
  "objectAssign m u =
     m\<lparr>role := (case upd_role u of None \<Rightarrow> role m | Some r \<Rightarrow> r),
       isActive := (case upd_isActive u of None \<Rightarrow> isActive m | Some a \<Rightarrow> a)\<rparr>"

section \<open>The controller\<close>

text \<open>
  A handler takes the authenticated user of the request (\<^verbatim>\<open>req.user\<close>, of which only the
  id is read), the route parameters, the body, the clock and the database; it returns
  the JSON response or the error thrown, and the database afterwards. Every \<^verbatim>\<open>throw\<close>
  of the source comes before the handler's \<^verbatim>\<open>save()\<close>, so an error leaves the database as
  it was.
\<close>

datatype response =
    GroupCreated familyGroup memberRole bool nat
  | MemberReactivated familyMember
  | MemberAdded string nat
  | Joined familyGroup memberRole bool nat
  | MemberUpdated familyMember
  | MemberRemoved
  | LeftGroup

type_synonym outcome = "(apiError + response) \<times> database"

definition defaultSettings :: familyGroupSettings where
  "defaultSettings =
     \<lparr>allowMemberInvites = True, requireApprovalForRecipes = False, sharedPantry = True,
      sharedMealPlans = True, sharedShoppingLists = True\<rparr>"

text \<open>The \<^verbatim>\<open>do ... while (!isUnique)\<close> loop of \<^verbatim>\<open>createFamilyGroup\<close>; it has no bound, and
  returns \<open>None\<close> when it runs forever.\<close>

partial_function (option) uniqueInviteCode ::
  "(nat \<Rightarrow> real) \<Rightarrow> nat \<Rightarrow> database \<Rightarrow> (string \<times> nat) option" where
  "uniqueInviteCode rnd p db =
     (case generateInviteCode rnd p of
        (code, p') \<Rightarrow>
          if findOne_inviteCode code db = None then Some (code, p')
          else uniqueInviteCode rnd p' db)"

declare uniqueInviteCode.simps [code]

definition createFamilyGroup ::
  "objectId option \<Rightarrow> createBody \<Rightarrow> nat \<Rightarrow> objectId \<Rightarrow> (nat \<Rightarrow> real) \<Rightarrow> nat \<Rightarrow> database
     \<Rightarrow> outcome option" where
  "createFamilyGroup reqUser body now newId rnd p db =
     (case reqUser of
        None \<Rightarrow> Some (Inl (ApiError ''Authentication required'' 401), db)
      | Some me \<Rightarrow>
          (case createFamilyGroupSchema body of
             Inl messages \<Rightarrow> Some (Inl (zodError messages), db)
           | Inr data \<Rightarrow>
               (case findOne_adminId me db of
                  Some existingAdminGroup \<Rightarrow>
                    Some (Inl (ApiError ''You can only create one family group. Please leave your current group first.'' 409), db)
                | None \<Rightarrow>
                    (case uniqueInviteCode rnd p db of
                       None \<Rightarrow> None
                     | Some (code, p') \<Rightarrow>
                         (let newFamilyGroup =
                            \<lparr>gid = newId,
                             name = data_name data,
                             description = data_description data,
                             adminId = me,
                             members = [\<lparr>userId = me, role = Admin, joinedAt = now, isActive = True\<rparr>],
                             inviteCode = code,
                             settings =
                               (case data_settings data of
                                  None \<Rightarrow> defaultSettings
                                | Some s \<Rightarrow>
                                    defaultSettings
                                      \<lparr>allowMemberInvites := allowMemberInvites s,
                                       requireApprovalForRecipes := requireApprovalForRecipes s,
                                       sharedPantry := sharedPantry s,
                                       sharedMealPlans := sharedMealPlans s,
                                       sharedShoppingLists := sharedShoppingLists s\<rparr>)\<rparr>
                          in if familyGroupSchema_errors newFamilyGroup \<noteq> []
                             then Some (Inl (MongooseValidationError
                                    (joinWith '', '' (familyGroupSchema_errors newFamilyGroup))), db)
                             else Some (Inr (GroupCreated newFamilyGroup Admin True 1),
                                        insertNew newFamilyGroup db))))))"

definition inviteMember ::
  "(string \<Rightarrow> bool) \<Rightarrow> objectId option \<Rightarrow> objectId \<Rightarrow> string \<Rightarrow> nat \<Rightarrow> database \<Rightarrow> outcome" where
  "inviteMember isEmail reqUser id' bodyEmail now db =
     (case reqUser of
        None \<Rightarrow> (Inl (ApiError ''Authentication required'' 401), db)
      | Some me \<Rightarrow>
          if id' = [] then (Inl (ApiError ''Valid family group ID is required'' 400), db)
          else
            (case inviteMemberSchema isEmail bodyEmail of
               Inl messages \<Rightarrow> (Inl (zodError messages), db)
             | Inr email' \<Rightarrow>
                 (case findById id' db of
                    None \<Rightarrow> (Inl (ApiError ''Family group not found'' 404), db)
                  | Some familyGroup \<Rightarrow>
                      (case find (\<lambda>member. userId member = me \<and> isActive member)
                              (members familyGroup) of
                         None \<Rightarrow> (Inl (ApiError ''You are not a member of this family group'' 403), db)
                       | Some userMember \<Rightarrow>
                           if role userMember \<noteq> Admin
                              \<and> \<not> allowMemberInvites (settings familyGroup)
                           then (Inl (ApiError ''Only admins can invite members to this family group'' 403), db)
                           else
                             (case findOne_email (toLowerCase email') db of
                                None \<Rightarrow> (Inl (ApiError ''User with this email does not exist'' 404), db)
                              | Some inviteeUser \<Rightarrow>
                                  (case find (\<lambda>member. userId member = uid inviteeUser)
                                          (members familyGroup) of
                                     Some existingMember \<Rightarrow>
                                       if isActive existingMember
                                       then (Inl (ApiError ''User is already a member of this family group'' 409), db)
                                       else
                                         (Inr (MemberReactivated
                                                (existingMember\<lparr>isActive := True, joinedAt := now\<rparr>)),
                                          save (familyGroup\<lparr>members :=
                                                  mutateFound (\<lambda>member. userId member = uid inviteeUser)
                                                    (\<lambda>member. member\<lparr>isActive := True, joinedAt := now\<rparr>)
                                                    (members familyGroup)\<rparr>) db)
                                   | None \<Rightarrow>
                                       (let familyGroup' = familyGroup\<lparr>members :=
                                              members familyGroup
                                              @ [\<lparr>userId = uid inviteeUser, role = Member,
                                                  joinedAt = now, isActive = True\<rparr>]\<rparr>
                                        in (Inr (MemberAdded (inviteCode familyGroup')
                                                  (memberCount familyGroup')),
                                            save familyGroup' db))))))))"

text \<open>The query of \<^verbatim>\<open>joinByInviteCode\<close> populates \<^verbatim>\<open>adminId\<close> and \<^verbatim>\<open>members.userId\<close> with
  the name and e-mail address of the users. The model keeps the identifiers:
  \<^verbatim>\<open>member.userId.toString() === req.user.id\<close> is read, as in the other handlers, as the
  comparison of the member's user id with the id of the acting user.\<close>

definition joinByInviteCode :: "objectId option \<Rightarrow> string \<Rightarrow> nat \<Rightarrow> database \<Rightarrow> outcome" where
  "joinByInviteCode reqUser bodyInviteCode now db =
     (case reqUser of
        None \<Rightarrow> (Inl (ApiError ''Authentication required'' 401), db)
      | Some me \<Rightarrow>
          (case joinByInviteCodeSchema bodyInviteCode of
             Inl messages \<Rightarrow> (Inl (zodError messages), db)
           | Inr inviteCode' \<Rightarrow>
               (case findOne_inviteCode (toUpperCase inviteCode') db of
                  None \<Rightarrow> (Inl (ApiError ''Invalid invite code'' 404), db)
                | Some familyGroup \<Rightarrow>
                    (case find (\<lambda>member. userId member = me) (members familyGroup) of
                       Some existingMember \<Rightarrow>
                         if isActive existingMember
                         then (Inl (ApiError ''You are already a member of this family group'' 409), db)
                         else
                           (let familyGroup' = familyGroup\<lparr>members :=
                                  mutateFound (\<lambda>member. userId member = me)
                                    (\<lambda>member. member\<lparr>isActive := True, joinedAt := now\<rparr>)
                                    (members familyGroup)\<rparr>
                            in (Inr (Joined familyGroup' Member False (memberCount familyGroup')),
                                save familyGroup' db))
                     | None \<Rightarrow>
                         (let familyGroup' = familyGroup\<lparr>members :=
                                members familyGroup
                                @ [\<lparr>userId = me, role = Member, joinedAt = now, isActive = True\<rparr>]\<rparr>
                          in (Inr (Joined familyGroup' Member False (memberCount familyGroup')),
                              save familyGroup' db))))))"

definition updateMember ::
  "objectId option \<Rightarrow> objectId \<Rightarrow> objectId \<Rightarrow> memberUpdates \<Rightarrow> database \<Rightarrow> outcome" where
  "updateMember reqUser id' memberId updates db =
     (case reqUser of
        None \<Rightarrow> (Inl (ApiError ''Authentication required'' 401), db)
      | Some me \<Rightarrow>
          if id' = [] \<or> memberId = []
          then (Inl (ApiError ''Valid family group ID and member ID are required'' 400), db)
          else
            (case findById id' db of
               None \<Rightarrow> (Inl (ApiError ''Family group not found'' 404), db)
             | Some familyGroup \<Rightarrow>
                 if \<not> isUserFamilyAdmin me familyGroup
                 then (Inl (ApiError ''Only family group admin can update members'' 403), db)
                 else
                   (case find (\<lambda>member. userId member = memberId) (members familyGroup) of
                      None \<Rightarrow> (Inl (ApiError ''Member not found'' 404), db)
                    | Some member \<Rightarrow>
                        if userId member = me \<and> upd_role updates = Some Member
                           \<and> adminCount familyGroup \<le> 1
                        then (Inl (ApiError ''Cannot remove admin role. Family group must have at least one admin.'' 400), db)
                        else
                          (Inr (MemberUpdated (objectAssign member updates)),
                           save (familyGroup\<lparr>members :=
                                   mutateFound (\<lambda>member. userId member = memberId)
                                     (\<lambda>member. objectAssign member updates)
                                     (members familyGroup)\<rparr>) db))))"

definition removeMember ::
  "objectId option \<Rightarrow> objectId \<Rightarrow> objectId \<Rightarrow> database \<Rightarrow> outcome" where
  "removeMember reqUser id' memberId db =
     (case reqUser of
        None \<Rightarrow> (Inl (ApiError ''Authentication required'' 401), db)
      | Some me \<Rightarrow>
          if id' = [] \<or> memberId = []
          then (Inl (ApiError ''Valid family group ID and member ID are required'' 400), db)
          else
            (case findById id' db of
               None \<Rightarrow> (Inl (ApiError ''Family group not found'' 404), db)
             | Some familyGroup \<Rightarrow>
                 (case find (\<lambda>member. userId member = memberId) (members familyGroup) of
                    None \<Rightarrow> (Inl (ApiError ''Member not found'' 404), db)
                  | Some member \<Rightarrow>
                      (let isAdmin = isUserFamilyAdmin me familyGroup;
                           isSelf = (me = memberId)
                       in if \<not> isAdmin \<and> \<not> isSelf
                          then (Inl (ApiError ''You can only remove yourself from the family group'' 403), db)
                          else if role member = Admin \<and> adminCount familyGroup \<le> 1
                          then (Inl (ApiError ''Cannot remove the last admin. Please assign another admin first.'' 400), db)
                          else
                            (Inr MemberRemoved,
                             save (familyGroup\<lparr>members :=
                                     mutateFound (\<lambda>member. userId member = memberId)
                                       (\<lambda>member. member\<lparr>isActive := False\<rparr>)
                                       (members familyGroup)\<rparr>) db)))))"

definition leaveFamilyGroup :: "objectId option \<Rightarrow> objectId \<Rightarrow> database \<Rightarrow> outcome" where
  "leaveFamilyGroup reqUser id' db =
     (case reqUser of
        None \<Rightarrow> (Inl (ApiError ''Authentication required'' 401), db)
      | Some me \<Rightarrow>
          if id' = [] then (Inl (ApiError ''Valid family group ID is required'' 400), db)
          else
            (case findById id' db of
               None \<Rightarrow> (Inl (ApiError ''Family group not found'' 404), db)
             | Some familyGroup \<Rightarrow>
                 (case find (\<lambda>member. userId member = me) (members familyGroup) of
                    None \<Rightarrow> (Inl (ApiError ''You are not a member of this family group'' 404), db)
                  | Some member \<Rightarrow>
                      if \<not> isActive member
                      then (Inl (ApiError ''You are not a member of this family group'' 404), db)
                      else if role member = Admin \<and> adminCount familyGroup \<le> 1
                      then (Inl (ApiError ''Cannot leave family group. You are the last admin. Please assign another admin first.'' 400), db)
                      else
                        (Inr LeftGroup,
                         save (familyGroup\<lparr>members :=
                                 mutateFound (\<lambda>member. userId member = me)
                                   (\<lambda>member. member\<lparr>isActive := False\<rparr>)
                                   (members familyGroup)\<rparr>) db))))"

section \<open>The routes that change a roster\<close>

text \<open>
  \<^verbatim>\<open>routes/familyRoutes.ts\<close> maps five requests to the membership handlers:
  \<^verbatim>\<open>POST /:id/invite\<close>, \<^verbatim>\<open>POST /join\<close>, \<^verbatim>\<open>PUT /:id/members/:memberId\<close>,
  \<^verbatim>\<open>DELETE /:id/members/:memberId\<close> and \<^verbatim>\<open>POST /:id/leave\<close>. Each request carries the
  authenticated user, the route parameters, the body, and the time it is served.
\<close>

datatype familyRequest =
    PostInvite "objectId option" objectId string nat
  | PostJoin "objectId option" string nat
  | PutMember "objectId option" objectId objectId memberUpdates
  | DeleteMember "objectId option" objectId objectId
  | PostLeave "objectId option" objectId

fun router :: "(string \<Rightarrow> bool) \<Rightarrow> familyRequest \<Rightarrow> database \<Rightarrow> outcome" where
  "router isEmail (PostInvite reqUser id' bodyEmail now) db =
     inviteMember isEmail reqUser id' bodyEmail now db"
| "router isEmail (PostJoin reqUser bodyInviteCode now) db =
     joinByInviteCode reqUser bodyInviteCode now db"
| "router isEmail (PutMember reqUser id' memberId updates) db =
     updateMember reqUser id' memberId updates db"
| "router isEmail (DeleteMember reqUser id' memberId) db =
     removeMember reqUser id' memberId db"
| "router isEmail (PostLeave reqUser id' ) db =
     leaveFamilyGroup reqUser id' db"

section \<open>Predicates of the specification\<close>

text \<open>The sole-admin invariant of a group: at least one member with role admin that is
  active.\<close>

definition hasActiveAdmin :: "familyGroup \<Rightarrow> bool" where
  "hasActiveAdmin g = list_ex (\<lambda>m. role m = Admin \<and> isActive m) (members g)"

text \<open>A roster holds at most one entry per user. Creation starts with such a roster and
  every handler keeps it so: it holds in every state of the system (lemma
  \<open>reachable_wellformed\<close> below).\<close>

definition oneEntryPerUser :: "familyGroup \<Rightarrow> bool" where
  "oneEntryPerUser g = distinct (map userId (members g))"


text \<open>The target \<open>m\<close> is the sole active admin of \<open>g\<close>.\<close>

definition isSoleActiveAdmin :: "familyMember \<Rightarrow> familyGroup \<Rightarrow> bool" where
  "isSoleActiveAdmin m g = (role m = Admin \<and> isActive m \<and> adminCount g = 1)"

text \<open>The roster of \<open>g'\<close> keeps every entry of the roster of \<open>g\<close> at its place and under its
  user id: it is at least as long, and position by position the user ids agree.\<close>

definition rosterKept :: "familyGroup \<Rightarrow> familyGroup \<Rightarrow> bool" where
  "rosterKept g g' =
     (take (length (members g)) (map userId (members g')) = map userId (members g))"

text \<open>The settings of a new group in the words of the specification: the five documented
  defaults (\<^verbatim>\<open>allowMemberInvites = true\<close>,
  \<^verbatim>\<open>requireApprovalForRecipes = false\<close>, \<^verbatim>\<open>sharedPantry = true\<close>, \<^verbatim>\<open>sharedMealPlans = true\<close>,
  \<^verbatim>\<open>sharedShoppingLists = true\<close>), each replaced by the caller's value where the caller
  gives one.\<close>

definition documentedSettings :: "settingsInput option \<Rightarrow> familyGroupSettings" where
  "documentedSettings overrides =
     (case overrides of
        None \<Rightarrow>
          \<lparr>allowMemberInvites = True, requireApprovalForRecipes = False, sharedPantry = True,
           sharedMealPlans = True, sharedShoppingLists = True\<rparr>
      | Some s \<Rightarrow>
          \<lparr>allowMemberInvites = (case in_allowMemberInvites s of None \<Rightarrow> True | Some b \<Rightarrow> b),
           requireApprovalForRecipes =
             (case in_requireApprovalForRecipes s of None \<Rightarrow> False | Some b \<Rightarrow> b),
           sharedPantry = (case in_sharedPantry s of None \<Rightarrow> True | Some b \<Rightarrow> b),
           sharedMealPlans = (case in_sharedMealPlans s of None \<Rightarrow> True | Some b \<Rightarrow> b),
           sharedShoppingLists = (case in_sharedShoppingLists s of None \<Rightarrow> True | Some b \<Rightarrow> b)\<rparr>)"

section \<open>States of the system\<close>

text \<open>
  The databases the controller can be in: it starts without groups; the identity store,
  an external collaborator, may change between requests; a request to a membership
  route is served; a group is created, under an id that no group has yet (the store
  assigns a fresh \<^verbatim>\<open>_id\<close> to a new document).
\<close>

inductive reachable :: "database \<Rightarrow> bool" where
  start: "reachable \<lparr>groups = [], users = us\<rparr>"
| identityStore: "reachable db \<Longrightarrow> reachable (db\<lparr>users := us\<rparr>)"
| membership: "reachable db \<Longrightarrow> reachable (snd (router isEmail r db))"
| creation:
    "reachable db \<Longrightarrow> newId \<notin> set (map gid (groups db)) \<Longrightarrow>
     createFamilyGroup reqUser body now newId rnd p db = Some (res, db') \<Longrightarrow> reachable db'"

section \<open>Example states\<close>

text \<open>
  The scenario of the specification. At the start there is no group, and the users A and
  B are in the identity store. A creates the group ``Smith Family''; the random source
  is one whose first eight draws select the characters of \<^verbatim>\<open>K3J9QZ7M\<close>. Then three later
  states of the group: as B was invited; after A promoted B and demoted themself (A
  still holds \<^verbatim>\<open>adminId\<close>); and after A promoted B and B left.
\<close>

definition emptyDatabase :: database where
  "emptyDatabase =
     \<lparr>groups = [],
      users = [\<lparr>uid = ''A'', email = ''a@example.com''\<rparr>, \<lparr>uid = ''B'', email = ''b@example.com''\<rparr>]\<rparr>"

definition smithBody :: createBody where
  "smithBody = \<lparr>body_name = ''Smith Family'', body_description = None, body_settings = None\<rparr>"

definition scenarioRandom :: "nat \<Rightarrow> real" where
  "scenarioRandom n = real ([10, 29, 9, 35, 16, 25, 33, 12] ! (n mod 8)) / 36"

definition smithCreated :: familyGroup where
  "smithCreated =
     \<lparr>gid = ''g1'', name = ''Smith Family'', description = None, adminId = ''A'',
      members = [\<lparr>userId = ''A'', role = Admin, joinedAt = 1, isActive = True\<rparr>],
      inviteCode = ''K3J9QZ7M'', settings = defaultSettings\<rparr>"

definition smithFresh :: database where
  "smithFresh =
     \<lparr>groups =
        [\<lparr>gid = ''g1'', name = ''Smith Family'', description = None, adminId = ''A'',
          members =
            [\<lparr>userId = ''A'', role = Admin, joinedAt = 1, isActive = True\<rparr>,
             \<lparr>userId = ''B'', role = Member, joinedAt = 2, isActive = True\<rparr>],
          inviteCode = ''K3J9QZ7M'', settings = defaultSettings\<rparr>],
      users = [\<lparr>uid = ''A'', email = ''a@example.com''\<rparr>, \<lparr>uid = ''B'', email = ''b@example.com''\<rparr>]\<rparr>"

definition smithAfterHandover :: database where
  "smithAfterHandover =
     \<lparr>groups =
        [\<lparr>gid = ''g1'', name = ''Smith Family'', description = None, adminId = ''A'',
          members =
            [\<lparr>userId = ''A'', role = Member, joinedAt = 1, isActive = True\<rparr>,
             \<lparr>userId = ''B'', role = Admin, joinedAt = 2, isActive = True\<rparr>],
          inviteCode = ''K3J9QZ7M'', settings = defaultSettings\<rparr>],
      users = [\<lparr>uid = ''A'', email = ''a@example.com''\<rparr>, \<lparr>uid = ''B'', email = ''b@example.com''\<rparr>]\<rparr>"

definition smithFormerAdmin :: database where
  "smithFormerAdmin =
     \<lparr>groups =
        [\<lparr>gid = ''g1'', name = ''Smith Family'', description = None, adminId = ''A'',
          members =
            [\<lparr>userId = ''A'', role = Admin, joinedAt = 1, isActive = True\<rparr>,
             \<lparr>userId = ''B'', role = Admin, joinedAt = 2, isActive = False\<rparr>],
          inviteCode = ''K3J9QZ7M'', settings = defaultSettings\<rparr>],
      users = [\<lparr>uid = ''A'', email = ''a@example.com''\<rparr>, \<lparr>uid = ''B'', email = ''b@example.com''\<rparr>]\<rparr>"

section \<open>Properties of the invite-code generator\<close>

lemma length_chars: "length chars = 36"
  by (simp add: chars_def)

lemma charAt_random:
  assumes "0 \<le> r" and "r < 1"
  shows "\<exists>c. charAt chars (nat \<lfloor>r * real (length chars)\<rfloor>) = [c] \<and> c \<in> set chars"
proof -
  have "r * 36 < 36" using assms by simp
  then have "\<lfloor>r * 36\<rfloor> < 36" by (simp add: floor_less_iff)
  moreover have "0 \<le> \<lfloor>r * 36\<rfloor>" using assms by simp
  ultimately have "nat \<lfloor>r * 36\<rfloor> < 36" by linarith
  then have "nat \<lfloor>r * real (length chars)\<rfloor> < length chars"
    by (simp add: length_chars)
  then show ?thesis
    by (simp add: charAt_def length_chars)
qed

lemma generateInviteCode_loop_result:
  assumes "\<forall>n. 0 \<le> rnd n \<and> rnd n < 1"
  shows "\<exists>suffix. fst (generateInviteCode_loop rnd p i result) = result @ suffix
           \<and> length suffix = 8 - i \<and> set suffix \<subseteq> set chars"
  using assms
proof (induction rnd p i result rule: generateInviteCode_loop.induct)
  case (1 rnd p i result)
  show ?case
  proof (cases "i < 8")
    case True
    from "1.prems" have "0 \<le> rnd p" "rnd p < 1" by auto
    from charAt_random [OF this] obtain c where
      c: "charAt chars (nat \<lfloor>rnd p * real (length chars)\<rfloor>) = [c]" "c \<in> set chars"
      by blast
    from "1.IH" [OF True "1.prems"] obtain suffix where
      s: "fst (generateInviteCode_loop rnd (p + 1) (i + 1)
                (result @ charAt chars (nat \<lfloor>rnd p * real (length chars)\<rfloor>)))
            = (result @ charAt chars (nat \<lfloor>rnd p * real (length chars)\<rfloor>)) @ suffix"
         "length suffix = 8 - (i + 1)" "set suffix \<subseteq> set chars"
      by blast
    have "fst (generateInviteCode_loop rnd p i result) = result @ (c # suffix)"
      using True s(1) c(1) by (subst generateInviteCode_loop.simps) simp
    moreover have "length (c # suffix) = 8 - i"
      using True s(2) by simp
    moreover have "set (c # suffix) \<subseteq> set chars"
      using c(2) s(3) by simp
    ultimately show ?thesis by blast
  next
    case False
    then show ?thesis
      by (subst generateInviteCode_loop.simps) simp
  qed
qed

text \<open>
  Claim C8. Every string the invite-code generator returns has exactly 8 characters, and
  each of them is one of A-Z, 0-9, whatever the draws of the random source are (within
  the contract of \<^verbatim>\<open>Math.random\<close>: each draw in \<open>[0, 1)\<close>).
\<close>

theorem generateInviteCode_alphabet:
  assumes "\<forall>n. 0 \<le> rnd n \<and> rnd n < 1"
  shows "length (fst (generateInviteCode rnd p)) = 8
         \<and> set (fst (generateInviteCode rnd p)) \<subseteq> set ''ABCDEFGHIJKLMNOPQRSTUVWXYZ0123456789''"
proof -
  from generateInviteCode_loop_result [OF assms, of p 0 "[]"] obtain suffix where
    "fst (generateInviteCode_loop rnd p 0 []) = [] @ suffix"
    "length suffix = 8 - 0" "set suffix \<subseteq> set chars"
    by blast
  then show ?thesis
    by (simp add: generateInviteCode_def chars_def)
qed

theorem generateInviteCode_alphabet_witness:
  "(\<forall>n. (0::real) \<le> (\<lambda>k. 1 / 2) n \<and> (\<lambda>k. 1 / 2) n < (1::real))
   \<and> length (fst (generateInviteCode (\<lambda>k. 1 / 2) 0)) = 8
   \<and> set (fst (generateInviteCode (\<lambda>k. 1 / 2) 0)) \<subseteq> set ''ABCDEFGHIJKLMNOPQRSTUVWXYZ0123456789''"
  using generateInviteCode_alphabet [of "\<lambda>k. 1 / 2" 0] by simp

section \<open>Lists, lookups and writes\<close>

lemma length_mutateFound [simp]: "length (mutateFound p f xs) = length xs"
  by (induction xs) auto

lemma mutateFound_None: "find p xs = None \<Longrightarrow> mutateFound p f xs = xs"
  by (induction xs) (auto split: if_splits)

lemma mutateFound_Some:
  "find p xs = Some x \<Longrightarrow>
     \<exists>i<length xs. xs ! i = x \<and> (\<forall>j<i. \<not> p (xs ! j)) \<and> mutateFound p f xs = xs[i := f x]"
proof (induction xs)
  case Nil
  then show ?case by simp
next
  case (Cons a xs)
  show ?case
  proof (cases "p a")
    case True
    with Cons.prems have "a = x" by simp
    with True have "(a # xs) ! 0 = x \<and> (\<forall>j<0. \<not> p ((a # xs) ! j))
        \<and> mutateFound p f (a # xs) = (a # xs)[0 := f x]"
      by simp
    then show ?thesis by blast
  next
    case False
    with Cons.prems have "find p xs = Some x" by simp
    from Cons.IH [OF this] obtain i where
      i: "i < length xs" "xs ! i = x" "\<forall>j<i. \<not> p (xs ! j)" "mutateFound p f xs = xs[i := f x]"
      by blast
    have "\<forall>j<Suc i. \<not> p ((a # xs) ! j)"
      using False i(3) by (auto simp: less_Suc_eq_0_disj)
    with i False have "Suc i < length (a # xs) \<and> (a # xs) ! Suc i = x
        \<and> (\<forall>j<Suc i. \<not> p ((a # xs) ! j))
        \<and> mutateFound p f (a # xs) = (a # xs)[Suc i := f x]"
      by simp
    then show ?thesis by blast
  qed
qed

lemma map_mutateFound: "(\<And>x. h (f x) = h x) \<Longrightarrow> map h (mutateFound p f xs) = map h xs"
  by (induction xs) auto

lemma set_mutateFound_const: "set (mutateFound p (\<lambda>h. g) xs) \<subseteq> insert g (set xs)"
  by (induction xs) auto





lemma find_mutateFound_const:
  "find (\<lambda>h. k h = k g) (mutateFound (\<lambda>h. k h = k g) (\<lambda>h. g) xs)
     = (if find (\<lambda>h. k h = k g) xs = None then None else Some g)"
  by (induction xs) auto

lemma find_mutateFound_other:
  "i \<noteq> k g \<Longrightarrow> find (\<lambda>h. k h = i) (mutateFound (\<lambda>h. k h = k g) (\<lambda>h. g) xs)
     = find (\<lambda>h. k h = i) xs"
  by (induction xs) auto

lemma groups_save_subset: "set (groups (save g db)) \<subseteq> insert g (set (groups db))"
  by (simp add: save_def set_mutateFound_const)

lemma users_save [simp]: "users (save g db) = users db"
  by (simp add: save_def)

lemma findById_save:
  "findById (gid g) db = Some g0 \<Longrightarrow> findById (gid g) (save g db) = Some g"
  by (simp add: findById_def save_def find_mutateFound_const)

lemma findById_save_other:
  "i \<noteq> gid g \<Longrightarrow> findById i (save g db) = findById i db"
  by (simp add: findById_def save_def find_mutateFound_other)

lemma findById_gid: "findById i db = Some g \<Longrightarrow> gid g = i"
  by (auto simp: findById_def find_Some_iff)

lemma findById_mem: "findById i db = Some g \<Longrightarrow> g \<in> set (groups db)"
  by (auto simp: findById_def find_Some_iff)

lemma findOne_inviteCode_mem: "findOne_inviteCode c db = Some g \<Longrightarrow> g \<in> set (groups db)"
  by (auto simp: findOne_inviteCode_def find_Some_iff)

section \<open>The sole-admin invariant\<close>

lemma save_list_all:
  "list_all P (groups db) \<Longrightarrow> P g \<Longrightarrow> list_all P (groups (save g db))"
  using groups_save_subset [of g db] by (auto simp: list_all_iff)



















text \<open>
  An update that sets \<^verbatim>\<open>isActive\<close> to false is outside the guard as well: the sole active
  admin of the group as B was invited deactivates themself through \<^verbatim>\<open>updateMember\<close>, which
  \<^verbatim>\<open>removeMember\<close> and \<^verbatim>\<open>leaveFamilyGroup\<close> refuse.
\<close>

lemma updateMember_deactivates_sole_admin:
  "fst (updateMember (Some ''A'') ''g1'' ''A'' \<lparr>upd_role = None, upd_isActive = Some False\<rparr> smithFresh)
     = Inr (MemberUpdated \<lparr>userId = ''A'', role = Admin, joinedAt = 1, isActive = False\<rparr>)
   \<and> \<not> list_all hasActiveAdmin
         (groups (snd (updateMember (Some ''A'') ''g1'' ''A''
                    \<lparr>upd_role = None, upd_isActive = Some False\<rparr> smithFresh)))
   \<and> fst (removeMember (Some ''A'') ''g1'' ''A'' smithFresh)
       = Inl (ApiError ''Cannot remove the last admin. Please assign another admin first.'' 400)
   \<and> fst (leaveFamilyGroup (Some ''A'') ''g1'' smithFresh)
       = Inl (ApiError ''Cannot leave family group. You are the last admin. Please assign another admin first.'' 400)"
  by (simp add: updateMember_def removeMember_def leaveFamilyGroup_def smithFresh_def
      findById_def isUserFamilyAdmin_def hasActiveAdmin_def objectAssign_def save_def
      adminCount_def)

section \<open>Updating a member\<close>

lemma find_userId: "find (\<lambda>member. userId member = u) ms = Some m \<Longrightarrow> userId m = u"
  by (auto simp: find_Some_iff)

text \<open>
  Claim C2, as the code has it. An update by the group's admin that sets the role to
  member is rejected with status 400 when its target is the acting user themself and is
  the sole active admin of the group.
\<close>

theorem updateMember_self_demotion:
  assumes "findById i db = Some g" and "i \<noteq> []" and "me \<noteq> []"
    and "isUserFamilyAdmin me g"
    and "find (\<lambda>member. userId member = me) (members g) = Some m"
    and "isSoleActiveAdmin m g"
    and "upd_role u = Some Member"
  shows "updateMember (Some me) i me u db =
           (Inl (ApiError ''Cannot remove admin role. Family group must have at least one admin.'' 400), db)"
  using assms find_userId [OF assms(5)]
  by (simp add: updateMember_def isSoleActiveAdmin_def)

theorem updateMember_self_demotion_witness:
  "findById ''g1'' smithFresh = Some (hd (groups smithFresh)) \<and> ''g1'' \<noteq> [] \<and> ''A'' \<noteq> []
   \<and> isUserFamilyAdmin ''A'' (hd (groups smithFresh))
   \<and> find (\<lambda>member. userId member = ''A'') (members (hd (groups smithFresh)))
       = Some \<lparr>userId = ''A'', role = Admin, joinedAt = 1, isActive = True\<rparr>
   \<and> isSoleActiveAdmin \<lparr>userId = ''A'', role = Admin, joinedAt = 1, isActive = True\<rparr>
        (hd (groups smithFresh))
   \<and> updateMember (Some ''A'') ''g1'' ''A'' \<lparr>upd_role = Some Member, upd_isActive = None\<rparr> smithFresh =
       (Inl (ApiError ''Cannot remove admin role. Family group must have at least one admin.'' 400),
        smithFresh)"
proof -
  have a: "findById ''g1'' smithFresh = Some (hd (groups smithFresh))"
    by (simp add: smithFresh_def findById_def)
  have b: "isUserFamilyAdmin ''A'' (hd (groups smithFresh))"
    by (simp add: smithFresh_def isUserFamilyAdmin_def)
  have c: "find (\<lambda>member. userId member = ''A'') (members (hd (groups smithFresh)))
       = Some \<lparr>userId = ''A'', role = Admin, joinedAt = 1, isActive = True\<rparr>"
    by (simp add: smithFresh_def)
  have d: "isSoleActiveAdmin \<lparr>userId = ''A'', role = Admin, joinedAt = 1, isActive = True\<rparr>
        (hd (groups smithFresh))"
    by (simp add: smithFresh_def isSoleActiveAdmin_def adminCount_def)
  have e: "upd_role \<lparr>upd_role = Some Member, upd_isActive = None\<rparr> = Some Member"
    by simp
  from updateMember_self_demotion [OF a _ _ b c d e] a b c d show ?thesis
    by simp
qed

text \<open>
  When the target is a different member the guard does not apply: the holder of
  \<^verbatim>\<open>adminId\<close> demotes B, the sole active admin, and the request succeeds.
\<close>

theorem updateMember_demotes_other_sole_admin:
  "findById ''g1'' smithAfterHandover = Some (hd (groups smithAfterHandover))
   \<and> isUserFamilyAdmin ''A'' (hd (groups smithAfterHandover))
   \<and> find (\<lambda>member. userId member = ''B'') (members (hd (groups smithAfterHandover)))
       = Some \<lparr>userId = ''B'', role = Admin, joinedAt = 2, isActive = True\<rparr>
   \<and> isSoleActiveAdmin \<lparr>userId = ''B'', role = Admin, joinedAt = 2, isActive = True\<rparr>
        (hd (groups smithAfterHandover))
   \<and> fst (updateMember (Some ''A'') ''g1'' ''B'' \<lparr>upd_role = Some Member, upd_isActive = None\<rparr>
            smithAfterHandover)
       = Inr (MemberUpdated \<lparr>userId = ''B'', role = Member, joinedAt = 2, isActive = True\<rparr>)"
  by (simp add: updateMember_def smithAfterHandover_def findById_def isUserFamilyAdmin_def
      isSoleActiveAdmin_def adminCount_def objectAssign_def)

section \<open>Removing a member\<close>

lemma deactivate_inactive:
  "find p xs = Some m \<Longrightarrow> \<not> isActive m \<Longrightarrow> mutateFound p (\<lambda>m. m\<lparr>isActive := False\<rparr>) xs = xs"
  by (induction xs) (auto split: if_splits)

text \<open>
  Claim C10. The guard of \<^verbatim>\<open>removeMember\<close> reads the role of the target only: in a group
  with at most one active admin, the removal of a target whose role is admin is
  rejected with status 400, also when the target is already inactive and its removal
  would leave the number of active admins as it is.
\<close>

theorem removeMember_role_alone:
  assumes "findById i db = Some g" and "i \<noteq> []" and "memberId \<noteq> []"
    and "find (\<lambda>member. userId member = memberId) (members g) = Some m"
    and "isUserFamilyAdmin me g \<or> me = memberId"
    and "role m = Admin" and "adminCount g \<le> 1"
  shows "removeMember (Some me) i memberId db =
           (Inl (ApiError ''Cannot remove the last admin. Please assign another admin first.'' 400), db)
         \<and> (\<not> isActive m \<longrightarrow>
              adminCount (g\<lparr>members := mutateFound (\<lambda>member. userId member = memberId)
                                          (\<lambda>member. member\<lparr>isActive := False\<rparr>) (members g)\<rparr>)
              = adminCount g)"
  using assms by (auto simp: removeMember_def Let_def deactivate_inactive)

theorem removeMember_role_alone_witness:
  "findById ''g1'' smithFormerAdmin = Some (hd (groups smithFormerAdmin))
   \<and> find (\<lambda>member. userId member = ''B'') (members (hd (groups smithFormerAdmin)))
       = Some \<lparr>userId = ''B'', role = Admin, joinedAt = 2, isActive = False\<rparr>
   \<and> isUserFamilyAdmin ''A'' (hd (groups smithFormerAdmin))
   \<and> adminCount (hd (groups smithFormerAdmin)) \<le> 1
   \<and> removeMember (Some ''A'') ''g1'' ''B'' smithFormerAdmin =
        (Inl (ApiError ''Cannot remove the last admin. Please assign another admin first.'' 400),
         smithFormerAdmin)"
proof -
  have a: "findById ''g1'' smithFormerAdmin = Some (hd (groups smithFormerAdmin))"
    by (simp add: smithFormerAdmin_def findById_def)
  have b: "find (\<lambda>member. userId member = ''B'') (members (hd (groups smithFormerAdmin)))
       = Some \<lparr>userId = ''B'', role = Admin, joinedAt = 2, isActive = False\<rparr>"
    by (simp add: smithFormerAdmin_def)
  have c: "isUserFamilyAdmin ''A'' (hd (groups smithFormerAdmin)) \<or> ''A'' = ''B''"
    by (simp add: smithFormerAdmin_def isUserFamilyAdmin_def)
  have d: "adminCount (hd (groups smithFormerAdmin)) \<le> 1"
    by (simp add: smithFormerAdmin_def adminCount_def)
  from removeMember_role_alone [OF a _ _ b c _ d] a b c d show ?thesis
    by simp
qed

text \<open>
  Claim C7, as the code has it. For a target entry of the roster: an actor who is neither
  the holder of \<^verbatim>\<open>adminId\<close> nor the target is refused with status 403; otherwise, if the
  role of the target is admin and the group has at most one active admin (whether the
  target is active or not), the request is refused with status 400; otherwise the entry
  of the target, the first of the roster with that user id, gets \<^verbatim>\<open>isActive = false\<close>,
  and its role and the other entries stay as they are.
\<close>

theorem removeMember_cases:
  assumes "findById i db = Some g" and "i \<noteq> []" and "memberId \<noteq> []"
    and "find (\<lambda>member. userId member = memberId) (members g) = Some m"
  shows "(\<not> isUserFamilyAdmin me g \<and> me \<noteq> memberId \<longrightarrow>
            removeMember (Some me) i memberId db =
              (Inl (ApiError ''You can only remove yourself from the family group'' 403), db))
       \<and> ((isUserFamilyAdmin me g \<or> me = memberId) \<and> role m = Admin \<and> adminCount g \<le> 1 \<longrightarrow>
            removeMember (Some me) i memberId db =
              (Inl (ApiError ''Cannot remove the last admin. Please assign another admin first.'' 400), db))
       \<and> ((isUserFamilyAdmin me g \<or> me = memberId) \<and> \<not> (role m = Admin \<and> adminCount g \<le> 1) \<longrightarrow>
            (\<exists>k<length (members g).
               members g ! k = m
               \<and> (\<forall>j<k. userId (members g ! j) \<noteq> memberId)
               \<and> fst (removeMember (Some me) i memberId db) = Inr MemberRemoved
               \<and> findById i (snd (removeMember (Some me) i memberId db))
                   = Some (g\<lparr>members := (members g)[k := m\<lparr>isActive := False\<rparr>]\<rparr>)))"
proof -
  from mutateFound_Some [OF assms(4), of "\<lambda>member. member\<lparr>isActive := False\<rparr>"]
  obtain k where k: "k < length (members g)" "members g ! k = m"
    "\<forall>j<k. userId (members g ! j) \<noteq> memberId"
    "mutateFound (\<lambda>member. userId member = memberId) (\<lambda>member. member\<lparr>isActive := False\<rparr>) (members g)
       = (members g)[k := m\<lparr>isActive := False\<rparr>]"
    by blast
  have gid: "gid g = i" using assms(1) by (rule findById_gid)
  have saved: "findById i (save (g\<lparr>members := (members g)[k := m\<lparr>isActive := False\<rparr>]\<rparr>) db)
      = Some (g\<lparr>members := (members g)[k := m\<lparr>isActive := False\<rparr>]\<rparr>)"
    using findById_save [of "g\<lparr>members := (members g)[k := m\<lparr>isActive := False\<rparr>]\<rparr>" db g]
      assms(1) gid by simp
  have "(isUserFamilyAdmin me g \<or> me = memberId) \<and> \<not> (role m = Admin \<and> adminCount g \<le> 1) \<longrightarrow>
          fst (removeMember (Some me) i memberId db) = Inr MemberRemoved
          \<and> findById i (snd (removeMember (Some me) i memberId db))
              = Some (g\<lparr>members := (members g)[k := m\<lparr>isActive := False\<rparr>]\<rparr>)"
    using assms k(4) saved by (auto simp: removeMember_def Let_def)
  with k(1-3) have third:
    "(isUserFamilyAdmin me g \<or> me = memberId) \<and> \<not> (role m = Admin \<and> adminCount g \<le> 1) \<longrightarrow>
       (\<exists>k<length (members g).
          members g ! k = m
          \<and> (\<forall>j<k. userId (members g ! j) \<noteq> memberId)
          \<and> fst (removeMember (Some me) i memberId db) = Inr MemberRemoved
          \<and> findById i (snd (removeMember (Some me) i memberId db))
              = Some (g\<lparr>members := (members g)[k := m\<lparr>isActive := False\<rparr>]\<rparr>))"
    by blast
  have first: "\<not> isUserFamilyAdmin me g \<and> me \<noteq> memberId \<longrightarrow>
            removeMember (Some me) i memberId db =
              (Inl (ApiError ''You can only remove yourself from the family group'' 403), db)"
    using assms by (simp add: removeMember_def Let_def)
  have second: "(isUserFamilyAdmin me g \<or> me = memberId) \<and> role m = Admin \<and> adminCount g \<le> 1 \<longrightarrow>
            removeMember (Some me) i memberId db =
              (Inl (ApiError ''Cannot remove the last admin. Please assign another admin first.'' 400), db)"
    using assms by (auto simp: removeMember_def Let_def)
  from first second third show ?thesis by blast
qed

theorem removeMember_cases_witness:
  "findById ''g1'' smithFresh = Some (hd (groups smithFresh))
   \<and> find (\<lambda>member. userId member = ''B'') (members (hd (groups smithFresh)))
       = Some \<lparr>userId = ''B'', role = Member, joinedAt = 2, isActive = True\<rparr>
   \<and> isUserFamilyAdmin ''A'' (hd (groups smithFresh))
   \<and> \<not> isUserFamilyAdmin ''B'' (hd (groups smithFresh))
   \<and> removeMember (Some ''B'') ''g1'' ''A'' smithFresh =
        (Inl (ApiError ''You can only remove yourself from the family group'' 403), smithFresh)
   \<and> fst (removeMember (Some ''A'') ''g1'' ''B'' smithFresh) = Inr MemberRemoved
   \<and> (\<exists>k<2. findById ''g1'' (snd (removeMember (Some ''A'') ''g1'' ''B'' smithFresh))
        = Some ((hd (groups smithFresh))\<lparr>members := (members (hd (groups smithFresh)))
             [k := \<lparr>userId = ''B'', role = Member, joinedAt = 2, isActive = False\<rparr>]\<rparr>))"
proof -
  have a: "findById ''g1'' smithFresh = Some (hd (groups smithFresh))"
    by (simp add: smithFresh_def findById_def)
  have b: "find (\<lambda>member. userId member = ''B'') (members (hd (groups smithFresh)))
       = Some \<lparr>userId = ''B'', role = Member, joinedAt = 2, isActive = True\<rparr>"
    by (simp add: smithFresh_def)
  have b': "find (\<lambda>member. userId member = ''A'') (members (hd (groups smithFresh)))
       = Some \<lparr>userId = ''A'', role = Admin, joinedAt = 1, isActive = True\<rparr>"
    by (simp add: smithFresh_def)
  have c: "isUserFamilyAdmin ''A'' (hd (groups smithFresh))"
    "\<not> isUserFamilyAdmin ''B'' (hd (groups smithFresh))"
    by (simp_all add: smithFresh_def isUserFamilyAdmin_def)
  have l: "length (members (hd (groups smithFresh))) = 2"
    by (simp add: smithFresh_def)
  from removeMember_cases [OF a _ _ b, of "''A''"] removeMember_cases [OF a _ _ b', of "''B''"]
    a b c l show ?thesis
    by auto
qed

text \<open>
  The third case of the claim as the specification states it (any target that is not an
  active sole admin is deactivated) fails for a target that is an inactive admin.
\<close>

theorem removeMember_inactive_admin_rejected:
  "findById ''g1'' smithFormerAdmin = Some (hd (groups smithFormerAdmin))
   \<and> find (\<lambda>member. userId member = ''B'') (members (hd (groups smithFormerAdmin)))
       = Some \<lparr>userId = ''B'', role = Admin, joinedAt = 2, isActive = False\<rparr>
   \<and> isUserFamilyAdmin ''A'' (hd (groups smithFormerAdmin))
   \<and> \<not> isSoleActiveAdmin \<lparr>userId = ''B'', role = Admin, joinedAt = 2, isActive = False\<rparr>
         (hd (groups smithFormerAdmin))
   \<and> fst (removeMember (Some ''A'') ''g1'' ''B'' smithFormerAdmin)
       = Inl (ApiError ''Cannot remove the last admin. Please assign another admin first.'' 400)"
  by (simp add: removeMember_def smithFormerAdmin_def findById_def isUserFamilyAdmin_def
      isSoleActiveAdmin_def adminCount_def)

section \<open>Inviting a member\<close>






section \<open>Normalisation of strings\<close>

lemma of_char_toUpperChar:
  "(of_char (toUpperChar c) :: nat) =
     (if 97 \<le> (of_char c :: nat) \<and> (of_char c :: nat) \<le> 122 then of_char c - 32 else of_char c)"
proof -
  have "(of_char c :: nat) < 256" by simp
  then have "(of_char c :: nat) - 32 < 256" by linarith
  then have "(of_char c - 32) mod 256 = (of_char c :: nat) - 32" by (rule mod_less)
  then show ?thesis
    by (simp add: toUpperChar_def)
qed


lemma toUpperChar_idem: "toUpperChar (toUpperChar c) = toUpperChar c"
proof -
  have "(of_char (toUpperChar (toUpperChar c)) :: nat) = of_char (toUpperChar c)"
    by (auto simp: of_char_toUpperChar)
  then show ?thesis by (simp only: of_char_eq_iff)
qed





lemma toUpperCase_idem: "toUpperCase (toUpperCase s) = toUpperCase s"
  by (simp add: toUpperCase_def toUpperChar_idem)



section \<open>Joining by invite code\<close>

lemma joinByInviteCode_lookup:
  assumes "c \<noteq> []"
  shows "joinByInviteCode (Some me) c now db =
    (case findOne_inviteCode (toUpperCase (trim c)) db of
       None \<Rightarrow> (Inl (ApiError ''Invalid invite code'' 404), db)
     | Some familyGroup \<Rightarrow>
         (case find (\<lambda>member. userId member = me) (members familyGroup) of
            Some existingMember \<Rightarrow>
              if isActive existingMember
              then (Inl (ApiError ''You are already a member of this family group'' 409), db)
              else
                (let familyGroup' = familyGroup\<lparr>members :=
                       mutateFound (\<lambda>member. userId member = me)
                         (\<lambda>member. member\<lparr>isActive := True, joinedAt := now\<rparr>)
                         (members familyGroup)\<rparr>
                 in (Inr (Joined familyGroup' Member False (memberCount familyGroup')),
                     save familyGroup' db))
          | None \<Rightarrow>
              (let familyGroup' = familyGroup\<lparr>members :=
                     members familyGroup
                     @ [\<lparr>userId = me, role = Member, joinedAt = now, isActive = True\<rparr>]\<rparr>
               in (Inr (Joined familyGroup' Member False (memberCount familyGroup')),
                   save familyGroup' db))))"
  using assms
  by (cases c) (simp_all add: joinByInviteCode_def joinByInviteCodeSchema_def toUpperCase_idem)




lemma find_mutateFound_userId:
  assumes "\<And>x. userId (f x) = userId x"
  shows "find (\<lambda>member. userId member = u) (mutateFound (\<lambda>member. userId member = u) f ms)
       = map_option f (find (\<lambda>member. userId member = u) ms)"
  using assms by (induction ms) auto

text \<open>A join that reactivates an entry sets \<^verbatim>\<open>isActive\<close> and \<^verbatim>\<open>joinedAt\<close> and nothing else:
  the entry keeps the role it had, while the response reports \<^verbatim>\<open>userRole: 'member'\<close>.\<close>

lemma joinByInviteCode_reactivation_keeps_role:
  assumes "c \<noteq> []" and "findOne_inviteCode (toUpperCase (trim c)) db = Some g"
    and "find (\<lambda>member. userId member = me) (members g) = Some m" and "\<not> isActive m"
  shows "\<exists>g'. joinByInviteCode (Some me) c now db
                = (Inr (Joined g' Member False (memberCount g')), save g' db)
              \<and> find (\<lambda>member. userId member = me) (members g')
                  = Some (m\<lparr>isActive := True, joinedAt := now\<rparr>)
              \<and> role (m\<lparr>isActive := True, joinedAt := now\<rparr>) = role m"
  using assms by (simp add: joinByInviteCode_lookup Let_def find_mutateFound_userId)


section \<open>Soft removal\<close>

lemma rosterKept_refl: "rosterKept g g"
  by (simp add: rosterKept_def)

lemma rosterKept_mutate:
  "(\<And>x. userId (f x) = userId x) \<Longrightarrow> rosterKept g (g\<lparr>members := mutateFound p f (members g)\<rparr>)"
  by (simp add: rosterKept_def map_mutateFound)

lemma rosterKept_append: "rosterKept g (g\<lparr>members := members g @ [m]\<rparr>)"
  by (simp add: rosterKept_def)

lemma userId_objectAssign: "userId (objectAssign m u) = userId m"
  by (simp add: objectAssign_def)

lemma find_gid_distinct:
  "distinct (map gid gs) \<Longrightarrow> g \<in> set gs \<Longrightarrow> find (\<lambda>h. gid h = gid g) gs = Some g"
  by (induction gs) (auto simp: image_iff)

lemma findOne_inviteCode_findById:
  "distinct (map gid (groups db)) \<Longrightarrow> findOne_inviteCode c db = Some g \<Longrightarrow>
     findById (gid g) db = Some g"
  using findOne_inviteCode_mem [of c db g] by (simp add: findById_def find_gid_distinct)

lemma save_rosterKept:
  assumes "findById i db = Some g" and "findById j db = Some g0" and "gid g1 = j"
    and "rosterKept g0 g1"
  shows "\<exists>g'. findById i (save g1 db) = Some g' \<and> rosterKept g g'"
proof (cases "i = j")
  case True
  with assms(1,2) have "g0 = g" by simp
  moreover from True assms(2,3) have "findById i (save g1 db) = Some g1"
    using findById_save [of g1 db g0] by simp
  ultimately show ?thesis using assms(4) by simp
next
  case False
  with assms(3) have "findById i (save g1 db) = findById i db"
    by (simp add: findById_save_other)
  with assms(1) show ?thesis by (simp add: rosterKept_refl)
qed

lemma inviteMember_rosterKept:
  assumes "findById i db = Some g"
  shows "\<exists>g'. findById i (snd (inviteMember isEmail reqUser j e now db)) = Some g' \<and> rosterKept g g'"
proof -
  have "\<exists>g'. findById i (save (g0\<lparr>members := ms\<rparr>) db) = Some g' \<and> rosterKept g g'"
    if "findById j db = Some g0" "rosterKept g0 (g0\<lparr>members := ms\<rparr>)" for g0 ms
    using save_rosterKept [OF assms that(1) _ that(2)] findById_gid [OF that(1)] by simp
  with assms show ?thesis
    by (auto simp: inviteMember_def Let_def rosterKept_refl rosterKept_mutate rosterKept_append
        split: option.splits sum.splits)
qed

lemma joinByInviteCode_rosterKept:
  assumes "distinct (map gid (groups db))" and "findById i db = Some g"
  shows "\<exists>g'. findById i (snd (joinByInviteCode reqUser c now db)) = Some g' \<and> rosterKept g g'"
proof -
  have "\<exists>g'. findById i (save (g0\<lparr>members := ms\<rparr>) db) = Some g' \<and> rosterKept g g'"
    if "findOne_inviteCode k db = Some g0" "rosterKept g0 (g0\<lparr>members := ms\<rparr>)" for g0 ms k
    using save_rosterKept [OF assms(2) findOne_inviteCode_findById [OF assms(1) that(1)] _ that(2)]
    by simp
  with assms(2) show ?thesis
    by (auto simp: joinByInviteCode_def Let_def rosterKept_refl rosterKept_mutate rosterKept_append
        split: option.splits sum.splits)
qed

lemma updateMember_rosterKept:
  assumes "findById i db = Some g"
  shows "\<exists>g'. findById i (snd (updateMember reqUser j memberId u db)) = Some g' \<and> rosterKept g g'"
proof -
  have "\<exists>g'. findById i (save (g0\<lparr>members := ms\<rparr>) db) = Some g' \<and> rosterKept g g'"
    if "findById j db = Some g0" "rosterKept g0 (g0\<lparr>members := ms\<rparr>)" for g0 ms
    using save_rosterKept [OF assms that(1) _ that(2)] findById_gid [OF that(1)] by simp
  with assms show ?thesis
    by (auto simp: updateMember_def rosterKept_refl rosterKept_mutate userId_objectAssign
        split: option.splits)
qed

lemma removeMember_rosterKept:
  assumes "findById i db = Some g"
  shows "\<exists>g'. findById i (snd (removeMember reqUser j memberId db)) = Some g' \<and> rosterKept g g'"
proof -
  have "\<exists>g'. findById i (save (g0\<lparr>members := ms\<rparr>) db) = Some g' \<and> rosterKept g g'"
    if "findById j db = Some g0" "rosterKept g0 (g0\<lparr>members := ms\<rparr>)" for g0 ms
    using save_rosterKept [OF assms that(1) _ that(2)] findById_gid [OF that(1)] by simp
  with assms show ?thesis
    by (auto simp: removeMember_def Let_def rosterKept_refl rosterKept_mutate
        split: option.splits)
qed

lemma leaveFamilyGroup_rosterKept:
  assumes "findById i db = Some g"
  shows "\<exists>g'. findById i (snd (leaveFamilyGroup reqUser j db)) = Some g' \<and> rosterKept g g'"
proof -
  have "\<exists>g'. findById i (save (g0\<lparr>members := ms\<rparr>) db) = Some g' \<and> rosterKept g g'"
    if "findById j db = Some g0" "rosterKept g0 (g0\<lparr>members := ms\<rparr>)" for g0 ms
    using save_rosterKept [OF assms that(1) _ that(2)] findById_gid [OF that(1)] by simp
  with assms show ?thesis
    by (auto simp: leaveFamilyGroup_def rosterKept_refl rosterKept_mutate
        split: option.splits)
qed

lemma router_rosterKept:
  assumes "distinct (map gid (groups db))" and "findById i db = Some g"
  shows "\<exists>g'. findById i (snd (router isEmail r db)) = Some g' \<and> rosterKept g g'"
  using assms
  by (cases r)
     (simp_all add: inviteMember_rosterKept joinByInviteCode_rosterKept updateMember_rosterKept
        removeMember_rosterKept leaveFamilyGroup_rosterKept)

lemma deactivated_in_place:
  assumes "findById i db = Some g" and "find (\<lambda>member. userId member = u) (members g) = Some m"
  shows "\<exists>k<length (members g). userId (members g ! k) = u
           \<and> findById i (save (g\<lparr>members := mutateFound (\<lambda>member. userId member = u)
                                    (\<lambda>member. member\<lparr>isActive := False\<rparr>) (members g)\<rparr>) db)
               = Some (g\<lparr>members := (members g)[k := (members g ! k)\<lparr>isActive := False\<rparr>]\<rparr>)"
proof -
  from mutateFound_Some [OF assms(2), of "\<lambda>member. member\<lparr>isActive := False\<rparr>"]
  obtain k where k: "k < length (members g)" "members g ! k = m"
    "mutateFound (\<lambda>member. userId member = u) (\<lambda>member. member\<lparr>isActive := False\<rparr>) (members g)
       = (members g)[k := m\<lparr>isActive := False\<rparr>]"
    by blast
  have "userId (members g ! k) = u"
    using k(2) find_userId [OF assms(2)] by simp
  moreover have "findById i (save (g\<lparr>members := (members g)[k := m\<lparr>isActive := False\<rparr>]\<rparr>) db)
      = Some (g\<lparr>members := (members g)[k := m\<lparr>isActive := False\<rparr>]\<rparr>)"
    using findById_save [of "g\<lparr>members := (members g)[k := m\<lparr>isActive := False\<rparr>]\<rparr>" db g]
      assms(1) findById_gid [OF assms(1)] by simp
  ultimately show ?thesis using k by auto
qed

lemma removeMember_success:
  assumes "fst (removeMember reqUser i memberId db) = Inr MemberRemoved" and "findById i db = Some g"
  shows "\<exists>m. find (\<lambda>member. userId member = memberId) (members g) = Some m
           \<and> snd (removeMember reqUser i memberId db)
               = save (g\<lparr>members := mutateFound (\<lambda>member. userId member = memberId)
                                    (\<lambda>member. member\<lparr>isActive := False\<rparr>) (members g)\<rparr>) db"
  using assms by (auto simp: removeMember_def Let_def split: option.splits if_splits)

lemma leaveFamilyGroup_success:
  assumes "fst (leaveFamilyGroup (Some me) i db) = Inr LeftGroup" and "findById i db = Some g"
  shows "\<exists>m. find (\<lambda>member. userId member = me) (members g) = Some m
           \<and> snd (leaveFamilyGroup (Some me) i db)
               = save (g\<lparr>members := mutateFound (\<lambda>member. userId member = me)
                                    (\<lambda>member. member\<lparr>isActive := False\<rparr>) (members g)\<rparr>) db"
  using assms by (auto simp: leaveFamilyGroup_def split: option.splits if_splits)

text \<open>
  Claim C9. In a database whose groups have distinct ids, no request to a membership
  route deletes a roster entry or changes the user id of one: the roster of every group
  afterwards keeps each entry it had, in place. A successful removal or leave is the
  roster with \<^verbatim>\<open>isActive = false\<close> written to one entry, that of the user removed or
  leaving, and nothing else.
\<close>

theorem soft_removal_only:
  assumes "distinct (map gid (groups db))" and "findById i db = Some g"
  shows "(\<exists>g'. findById i (snd (router isEmail r db)) = Some g' \<and> rosterKept g g')
       \<and> (\<forall>reqUser memberId.
            r = DeleteMember reqUser i memberId \<and> fst (router isEmail r db) = Inr MemberRemoved \<longrightarrow>
            (\<exists>k<length (members g). userId (members g ! k) = memberId
               \<and> findById i (snd (router isEmail r db))
                   = Some (g\<lparr>members := (members g)[k := (members g ! k)\<lparr>isActive := False\<rparr>]\<rparr>)))
       \<and> (\<forall>me.
            r = PostLeave (Some me) i \<and> fst (router isEmail r db) = Inr LeftGroup \<longrightarrow>
            (\<exists>k<length (members g). userId (members g ! k) = me
               \<and> findById i (snd (router isEmail r db))
                   = Some (g\<lparr>members := (members g)[k := (members g ! k)\<lparr>isActive := False\<rparr>]\<rparr>)))"
proof -
  have remove: "\<exists>k<length (members g). userId (members g ! k) = memberId
               \<and> findById i (snd (router isEmail r db))
                   = Some (g\<lparr>members := (members g)[k := (members g ! k)\<lparr>isActive := False\<rparr>]\<rparr>)"
    if "r = DeleteMember reqUser i memberId" "fst (router isEmail r db) = Inr MemberRemoved"
    for reqUser memberId
  proof -
    from that have "fst (removeMember reqUser i memberId db) = Inr MemberRemoved" by simp
    from removeMember_success [OF this assms(2)] obtain m where
      "find (\<lambda>member. userId member = memberId) (members g) = Some m"
      "snd (removeMember reqUser i memberId db)
         = save (g\<lparr>members := mutateFound (\<lambda>member. userId member = memberId)
                              (\<lambda>member. member\<lparr>isActive := False\<rparr>) (members g)\<rparr>) db"
      by blast
    with deactivated_in_place [OF assms(2), of memberId m] that(1) show ?thesis by simp
  qed
  have leave: "\<exists>k<length (members g). userId (members g ! k) = me
               \<and> findById i (snd (router isEmail r db))
                   = Some (g\<lparr>members := (members g)[k := (members g ! k)\<lparr>isActive := False\<rparr>]\<rparr>)"
    if "r = PostLeave (Some me) i" "fst (router isEmail r db) = Inr LeftGroup" for me
  proof -
    from that have "fst (leaveFamilyGroup (Some me) i db) = Inr LeftGroup" by simp
    from leaveFamilyGroup_success [OF this assms(2)] obtain m where
      "find (\<lambda>member. userId member = me) (members g) = Some m"
      "snd (leaveFamilyGroup (Some me) i db)
         = save (g\<lparr>members := mutateFound (\<lambda>member. userId member = me)
                              (\<lambda>member. member\<lparr>isActive := False\<rparr>) (members g)\<rparr>) db"
      by blast
    with deactivated_in_place [OF assms(2), of me m] that(1) show ?thesis by simp
  qed
  from router_rosterKept [OF assms] remove leave show ?thesis by blast
qed

theorem soft_removal_only_witness:
  "distinct (map gid (groups smithFresh))
   \<and> findById ''g1'' smithFresh = Some (hd (groups smithFresh))
   \<and> fst (router (\<lambda>s. True) (PostLeave (Some ''B'') ''g1'') smithFresh) = Inr LeftGroup
   \<and> (\<exists>g'. findById ''g1'' (snd (router (\<lambda>s. True) (PostLeave (Some ''B'') ''g1'') smithFresh)) = Some g'
          \<and> rosterKept (hd (groups smithFresh)) g')
   \<and> (\<exists>k<2. userId (members (hd (groups smithFresh)) ! k) = ''B''
          \<and> findById ''g1'' (snd (router (\<lambda>s. True) (PostLeave (Some ''B'') ''g1'') smithFresh))
              = Some ((hd (groups smithFresh))\<lparr>members := (members (hd (groups smithFresh)))
                  [k := (members (hd (groups smithFresh)) ! k)\<lparr>isActive := False\<rparr>]\<rparr>))"
proof -
  have a: "distinct (map gid (groups smithFresh))"
    by (simp add: smithFresh_def)
  have b: "findById ''g1'' smithFresh = Some (hd (groups smithFresh))"
    by (simp add: smithFresh_def findById_def)
  have c: "fst (router (\<lambda>s. True) (PostLeave (Some ''B'') ''g1'') smithFresh) = Inr LeftGroup"
    by (simp add: leaveFamilyGroup_def smithFresh_def findById_def)
  have l: "length (members (hd (groups smithFresh))) = 2"
    by (simp add: smithFresh_def)
  from soft_removal_only [OF a b, of "\<lambda>s. True" "PostLeave (Some ''B'') ''g1''"] a b c l
  show ?thesis by simp
qed

section \<open>Creating a family group\<close>

lemma generateInviteCode_loop_position:
  "snd (generateInviteCode_loop rnd p i result) = p + (8 - i)"
proof (induction rnd p i result rule: generateInviteCode_loop.induct)
  case (1 rnd p i result)
  show ?case
  proof (cases "i < 8")
    case True
    with "1.IH" show ?thesis
      by (subst generateInviteCode_loop.simps) simp
  next
    case False
    then show ?thesis
      by (subst generateInviteCode_loop.simps) simp
  qed
qed

lemma generateInviteCode_position: "snd (generateInviteCode rnd p) = p + 8"
  by (simp add: generateInviteCode_def generateInviteCode_loop_position)

lemma uniqueInviteCode_free:
  assumes "findOne_inviteCode (fst (generateInviteCode rnd p)) db = None"
  shows "uniqueInviteCode rnd p db
           = Some (fst (generateInviteCode rnd p), snd (generateInviteCode rnd p))"
  using assms by (subst uniqueInviteCode.simps) (simp add: split_beta)

lemma uniqueInviteCode_terminates:
  assumes "findOne_inviteCode (fst (generateInviteCode rnd (p + 8 * n))) db = None"
  shows "\<exists>code p'. uniqueInviteCode rnd p db = Some (code, p')
           \<and> findOne_inviteCode code db = None
           \<and> (\<exists>k\<le>n. code = fst (generateInviteCode rnd (p + 8 * k)))"
  using assms
proof (induction n arbitrary: p)
  case 0
  then have "findOne_inviteCode (fst (generateInviteCode rnd p)) db = None" by simp
  from uniqueInviteCode_free [OF this] this
  have "uniqueInviteCode rnd p db
        = Some (fst (generateInviteCode rnd p), snd (generateInviteCode rnd p))
      \<and> findOne_inviteCode (fst (generateInviteCode rnd p)) db = None
      \<and> fst (generateInviteCode rnd p) = fst (generateInviteCode rnd (p + 8 * 0))"
    by simp
  then show ?case by blast
next
  case (Suc n)
  show ?case
  proof (cases "findOne_inviteCode (fst (generateInviteCode rnd p)) db = None")
    case True
    from uniqueInviteCode_free [OF this] True have "uniqueInviteCode rnd p db
        = Some (fst (generateInviteCode rnd p), snd (generateInviteCode rnd p))
      \<and> findOne_inviteCode (fst (generateInviteCode rnd p)) db = None
      \<and> fst (generateInviteCode rnd p) = fst (generateInviteCode rnd (p + 8 * 0))"
      by simp
    then show ?thesis by blast
  next
    case False
    then have step: "uniqueInviteCode rnd p db = uniqueInviteCode rnd (p + 8) db"
      by (subst uniqueInviteCode.simps) (auto simp: split_beta generateInviteCode_position)
    from Suc.prems have "findOne_inviteCode (fst (generateInviteCode rnd (p + 8 + 8 * n))) db = None"
      by (simp add: add.assoc)
    from Suc.IH [OF this] obtain code p' k where
      r: "uniqueInviteCode rnd (p + 8) db = Some (code, p')" "findOne_inviteCode code db = None"
        "k \<le> n" "code = fst (generateInviteCode rnd (p + 8 + 8 * k))"
      by blast
    from r(3,4) have "Suc k \<le> Suc n \<and> code = fst (generateInviteCode rnd (p + 8 * Suc k))"
      by (simp add: add.assoc)
    with r(1,2) step show ?thesis by metis
  qed
qed

lemma length_trim: "length (trim s) \<le> length s"
proof -
  have "length (trim s) \<le> length (dropWhile isWhiteSpace s)"
    unfolding trim_def using length_dropWhile_le [of isWhiteSpace "rev (dropWhile isWhiteSpace s)"]
    by simp
  also have "\<dots> \<le> length s" by (rule length_dropWhile_le)
  finally show ?thesis .
qed

lemma createFamilyGroupSchema_Inr:
  assumes "createFamilyGroupSchema body = Inr data"
  shows "data_name data = trim (body_name body)"
    and "data_description data = body_description body"
    and "data_settings data = map_option settingsSchema (body_settings body)"
    and "length (body_name body) \<le> 50"
    and "\<forall>d. body_description body = Some d \<longrightarrow> length d \<le> 200"
  using assms
  by (auto simp: createFamilyGroupSchema_def Let_def split: if_splits option.splits)

lemma merged_settings:
  assumes "data_settings data = map_option settingsSchema overrides"
  shows "(case data_settings data of
      None \<Rightarrow> defaultSettings
    | Some s \<Rightarrow>
        defaultSettings
          \<lparr>allowMemberInvites := allowMemberInvites s,
           requireApprovalForRecipes := requireApprovalForRecipes s,
           sharedPantry := sharedPantry s,
           sharedMealPlans := sharedMealPlans s,
           sharedShoppingLists := sharedShoppingLists s\<rparr>)
   = documentedSettings overrides"
  by (cases overrides)
     (simp_all add: assms documentedSettings_def defaultSettings_def settingsSchema_def
        orDefault_def)

text \<open>
  Claim C6. For a request by the user \<open>me\<close> whose body passes the schema: if a group of
  the database has \<open>me\<close> as \<^verbatim>\<open>adminId\<close>, the request fails with status 409 and the database
  is unchanged. If no group has, the trimmed name is not empty, the draws of the random
  source are in \<open>[0, 1)\<close> and one of the codes it goes on to produce is held by no group
  (so that the search for a code ends), the request returns and a group is inserted
  with \<^verbatim>\<open>adminId = me\<close>, with the single member \<open>me\<close>, admin, active, joined now, and with
  the documented default settings overridden field by field by the caller's.
\<close>

theorem createFamilyGroup_effect:
  assumes "createFamilyGroupSchema body = Inr data"
  shows "((\<exists>g\<in>set (groups db). adminId g = me) \<longrightarrow>
            createFamilyGroup (Some me) body now newId rnd p db =
              Some (Inl (ApiError ''You can only create one family group. Please leave your current group first.'' 409), db))
       \<and> ((\<forall>g\<in>set (groups db). adminId g \<noteq> me) \<and> data_name data \<noteq> []
            \<and> (\<forall>n. 0 \<le> rnd n \<and> rnd n < 1)
            \<and> (\<exists>n. findOne_inviteCode (fst (generateInviteCode rnd (p + 8 * n))) db = None) \<longrightarrow>
            (\<exists>g. createFamilyGroup (Some me) body now newId rnd p db =
                    Some (Inr (GroupCreated g Admin True 1), insertNew g db)
                \<and> groups (insertNew g db) = groups db @ [g]
                \<and> gid g = newId \<and> adminId g = me
                \<and> members g = [\<lparr>userId = me, role = Admin, joinedAt = now, isActive = True\<rparr>]
                \<and> settings g = documentedSettings (body_settings body)
                \<and> findOne_inviteCode (inviteCode g) db = None))"
proof -
  note data = createFamilyGroupSchema_Inr [OF assms]
  have conflict: "createFamilyGroup (Some me) body now newId rnd p db =
      Some (Inl (ApiError ''You can only create one family group. Please leave your current group first.'' 409), db)"
    if "\<exists>g\<in>set (groups db). adminId g = me"
  proof -
    from that have "findOne_adminId me db \<noteq> None"
      by (auto simp: findOne_adminId_def find_None_iff)
    then obtain g where "findOne_adminId me db = Some g" by blast
    with assms show ?thesis by (simp add: createFamilyGroup_def)
  qed
  have created: "\<exists>g. createFamilyGroup (Some me) body now newId rnd p db =
                    Some (Inr (GroupCreated g Admin True 1), insertNew g db)
                \<and> groups (insertNew g db) = groups db @ [g]
                \<and> gid g = newId \<and> adminId g = me
                \<and> members g = [\<lparr>userId = me, role = Admin, joinedAt = now, isActive = True\<rparr>]
                \<and> settings g = documentedSettings (body_settings body)
                \<and> findOne_inviteCode (inviteCode g) db = None"
    if h: "\<forall>g\<in>set (groups db). adminId g \<noteq> me" "data_name data \<noteq> []"
      "\<forall>n. 0 \<le> rnd n \<and> rnd n < 1"
      "\<exists>n. findOne_inviteCode (fst (generateInviteCode rnd (p + 8 * n))) db = None"
  proof -
    from h(1) have none: "findOne_adminId me db = None"
      by (auto simp: findOne_adminId_def find_None_iff)
    from h(4) uniqueInviteCode_terminates obtain code p' k where
      u: "uniqueInviteCode rnd p db = Some (code, p')" "findOne_inviteCode code db = None"
        "code = fst (generateInviteCode rnd (p + 8 * k))"
      by blast
    from generateInviteCode_loop_result [OF h(3), of "p + 8 * k" 0 "[]"] u(3)
    have "length code = 8" by (auto simp: generateInviteCode_def)
    then have code: "code \<noteq> []" by auto
    define g where "g =
       \<lparr>gid = newId, name = data_name data, description = data_description data, adminId = me,
        members = [\<lparr>userId = me, role = Admin, joinedAt = now, isActive = True\<rparr>],
        inviteCode = code, settings = documentedSettings (body_settings body)\<rparr>"
    have valid: "familyGroupSchema_errors g = []"
      using h(2) code data(1,2,4,5) length_trim [of "body_name body"]
      by (auto simp: familyGroupSchema_errors_def g_def split: option.splits)
    have "createFamilyGroup (Some me) body now newId rnd p db =
            Some (Inr (GroupCreated g Admin True 1), insertNew g db)"
      using assms none u(1) valid
      by (simp add: createFamilyGroup_def Let_def merged_settings [OF data(3)] g_def)
    moreover have "groups (insertNew g db) = groups db @ [g]"
      by (simp add: insertNew_def)
    ultimately show ?thesis
      using u(2) by (auto simp: g_def)
  qed
  from conflict created show ?thesis by blast
qed

lemma scenarioRandom_contract: "0 \<le> scenarioRandom n \<and> scenarioRandom n < 1"
proof -
  have "\<forall>x\<in>set [10, 29, 9, 35, 16, 25, 33, 12]. x < (36::nat)" by simp
  moreover have "[10, 29, 9, 35, 16, 25, 33, 12] ! (n mod 8) \<in> set [10, 29, 9, 35, 16, 25, 33, 12::nat]"
    by (rule nth_mem) simp
  ultimately have "[10, 29, 9, 35, 16, 25, 33, 12] ! (n mod 8) < (36::nat)" by blast
  then show ?thesis by (simp add: scenarioRandom_def)
qed

lemma scenario_code: "generateInviteCode scenarioRandom 0 = (''K3J9QZ7M'', 8)"
  by (simp add: generateInviteCode_def scenarioRandom_def charAt_def chars_def)

lemma trim_smith: "trim ''Smith Family'' = ''Smith Family''"
  by code_simp

lemma smith_schema:
  "createFamilyGroupSchema smithBody =
     Inr \<lparr>data_name = ''Smith Family'', data_description = None, data_settings = None\<rparr>"
  by (simp add: createFamilyGroupSchema_def smithBody_def trim_smith)

theorem createFamilyGroup_effect_witness:
  "createFamilyGroupSchema smithBody =
     Inr \<lparr>data_name = ''Smith Family'', data_description = None, data_settings = None\<rparr>
   \<and> groups emptyDatabase = []
   \<and> (\<forall>n. 0 \<le> scenarioRandom n \<and> scenarioRandom n < 1)
   \<and> findOne_inviteCode (fst (generateInviteCode scenarioRandom (0 + 8 * 0))) emptyDatabase = None
   \<and> (\<exists>g. createFamilyGroup (Some ''A'') smithBody 1 ''g1'' scenarioRandom 0 emptyDatabase =
            Some (Inr (GroupCreated g Admin True 1), insertNew g emptyDatabase)
        \<and> adminId g = ''A''
        \<and> members g = [\<lparr>userId = ''A'', role = Admin, joinedAt = 1, isActive = True\<rparr>]
        \<and> settings g = documentedSettings None)
   \<and> (\<exists>g\<in>set (groups smithFresh). adminId g = ''A'')
   \<and> createFamilyGroup (Some ''A'') smithBody 3 ''g2'' scenarioRandom 8 smithFresh =
        Some (Inl (ApiError ''You can only create one family group. Please leave your current group first.'' 409),
              smithFresh)"
proof -
  have b: "\<forall>g\<in>set (groups emptyDatabase). adminId g \<noteq> ''A''"
    by (simp add: emptyDatabase_def)
  have c: "\<forall>n. 0 \<le> scenarioRandom n \<and> scenarioRandom n < 1"
    using scenarioRandom_contract by blast
  have d: "findOne_inviteCode (fst (generateInviteCode scenarioRandom (0 + 8 * 0))) emptyDatabase = None"
    by (simp add: emptyDatabase_def findOne_inviteCode_def)
  have e: "\<exists>n. findOne_inviteCode (fst (generateInviteCode scenarioRandom (0 + 8 * n))) emptyDatabase = None"
    using d by blast
  have f: "\<exists>g\<in>set (groups smithFresh). adminId g = ''A''"
    by (simp add: smithFresh_def)
  have s: "body_settings smithBody = None"
    by (simp add: smithBody_def)
  from createFamilyGroup_effect [OF smith_schema, of emptyDatabase "''A''" 1 "''g1''" scenarioRandom 0]
    createFamilyGroup_effect [OF smith_schema, of smithFresh "''A''" 3 "''g2''" scenarioRandom 8]
    smith_schema b c d e f s
  show ?thesis by (auto simp: emptyDatabase_def)
qed

section \<open>Well-formed databases stay well-formed\<close>

text \<open>Every handler keeps the rosters at one entry per user, and the membership routes
  keep the list of group ids.\<close>

lemma oneEntryPerUser_mutate:
  "oneEntryPerUser g \<Longrightarrow> (\<And>x. userId (f x) = userId x) \<Longrightarrow>
     oneEntryPerUser (g\<lparr>members := mutateFound p f (members g)\<rparr>)"
  by (simp add: oneEntryPerUser_def map_mutateFound)

lemma oneEntryPerUser_append:
  "oneEntryPerUser g \<Longrightarrow> find (\<lambda>member. userId member = u) (members g) = None \<Longrightarrow>
     oneEntryPerUser (g\<lparr>members := members g
        @ [\<lparr>userId = u, role = r, joinedAt = t, isActive = a\<rparr>]\<rparr>)"
  by (auto simp: oneEntryPerUser_def find_None_iff)

lemma router_oneEntryPerUser:
  assumes "list_all oneEntryPerUser (groups db)"
  shows "list_all oneEntryPerUser (groups (snd (router isEmail r db)))"
proof -
  have byId: "oneEntryPerUser g" if "findById i db = Some g" for g i
    using that assms findById_mem by (auto simp: list_all_iff)
  have byCode: "oneEntryPerUser g" if "findOne_inviteCode c db = Some g" for g c
    using that assms findOne_inviteCode_mem by (auto simp: list_all_iff)
  show ?thesis
  proof (cases r)
    case (PostInvite reqUser i e now)
    with assms byId show ?thesis
      by (auto simp: inviteMember_def Let_def save_list_all oneEntryPerUser_mutate
          oneEntryPerUser_append split: option.splits sum.splits)
  next
    case (PostJoin reqUser c now)
    with assms byCode show ?thesis
      by (auto simp: joinByInviteCode_def Let_def save_list_all oneEntryPerUser_mutate
          oneEntryPerUser_append split: option.splits sum.splits)
  next
    case (PutMember reqUser i memberId u)
    with assms byId show ?thesis
      by (auto simp: updateMember_def save_list_all oneEntryPerUser_mutate userId_objectAssign
          split: option.splits)
  next
    case (DeleteMember reqUser i memberId)
    with assms byId show ?thesis
      by (auto simp: removeMember_def Let_def save_list_all oneEntryPerUser_mutate
          split: option.splits)
  next
    case (PostLeave reqUser i)
    with assms byId show ?thesis
      by (auto simp: leaveFamilyGroup_def save_list_all oneEntryPerUser_mutate
          split: option.splits)
  qed
qed

lemma createFamilyGroup_oneEntryPerUser:
  assumes "list_all oneEntryPerUser (groups db)"
    and "createFamilyGroup reqUser body now newId rnd p db = Some (res, db')"
  shows "list_all oneEntryPerUser (groups db')"
  using assms
  by (auto simp: createFamilyGroup_def Let_def insertNew_def oneEntryPerUser_def
      split: option.splits sum.splits if_splits)

lemma gids_save: "map gid (groups (save g db)) = map gid (groups db)"
proof -
  have "map gid (mutateFound (\<lambda>h. gid h = gid g) (\<lambda>h. g) gs) = map gid gs" for gs
    by (induction gs) auto
  then show ?thesis by (simp add: save_def)
qed

lemma router_gids: "map gid (groups (snd (router isEmail r db))) = map gid (groups db)"
  by (cases r)
     (auto simp: inviteMember_def joinByInviteCode_def updateMember_def removeMember_def
        leaveFamilyGroup_def Let_def gids_save split: option.splits sum.splits)

lemma createFamilyGroup_gids:
  assumes "createFamilyGroup reqUser body now newId rnd p db = Some (res, db')"
  shows "map gid (groups db') = map gid (groups db) \<or> map gid (groups db') = map gid (groups db) @ [newId]"
  using assms
  by (auto simp: createFamilyGroup_def Let_def insertNew_def
      split: option.splits sum.splits if_splits)

lemma reachable_wellformed:
  "reachable db \<Longrightarrow> list_all oneEntryPerUser (groups db) \<and> distinct (map gid (groups db))"
proof (induction rule: reachable.induct)
  case (start us)
  then show ?case by simp
next
  case (identityStore db us)
  then show ?case by simp
next
  case (membership db isEmail r)
  then show ?case by (simp add: router_oneEntryPerUser router_gids)
next
  case (creation db newId reqUser body now rnd p res db')
  from createFamilyGroup_gids [OF creation.hyps(3)] creation.hyps(2) creation.IH
  have "distinct (map gid (groups db'))" by auto
  moreover from createFamilyGroup_oneEntryPerUser [OF _ creation.hyps(3)] creation.IH
  have "list_all oneEntryPerUser (groups db')" by simp
  ultimately show ?case by simp
qed

section \<open>The example states are states of the system\<close>

text \<open>A creates the group; A invites B; A promotes B and demotes themself, or A promotes
  B and B leaves.\<close>

lemma smith_created:
  "createFamilyGroup (Some ''A'') smithBody 1 ''g1'' scenarioRandom 0 emptyDatabase =
     Some (Inr (GroupCreated smithCreated Admin True 1), emptyDatabase\<lparr>groups := [smithCreated]\<rparr>)"
  by (simp add: createFamilyGroup_def smith_schema uniqueInviteCode.simps scenario_code
      emptyDatabase_def findOne_adminId_def findOne_inviteCode_def familyGroupSchema_errors_def
      insertNew_def smithCreated_def Let_def)

lemma smithFresh_reachable:
  "snd (inviteMember (\<lambda>s. CHR ''@'' \<in> set s) (Some ''A'') ''g1'' ''B@Example.com'' 2
          (emptyDatabase\<lparr>groups := [smithCreated]\<rparr>)) = smithFresh"
  by code_simp

lemma smithAfterHandover_reachable:
  "snd (updateMember (Some ''A'') ''g1'' ''A'' \<lparr>upd_role = Some Member, upd_isActive = None\<rparr>
     (snd (updateMember (Some ''A'') ''g1'' ''B'' \<lparr>upd_role = Some Admin, upd_isActive = None\<rparr>
        smithFresh))) = smithAfterHandover"
  by code_simp

lemma smithFormerAdmin_reachable:
  "snd (leaveFamilyGroup (Some ''B'') ''g1''
     (snd (updateMember (Some ''A'') ''g1'' ''B'' \<lparr>upd_role = Some Admin, upd_isActive = None\<rparr>
        smithFresh))) = smithFormerAdmin"
  by code_simp

lemma example_states_reachable:
  "reachable smithFresh \<and> reachable smithAfterHandover \<and> reachable smithFormerAdmin"
proof -
  have "reachable emptyDatabase"
    unfolding emptyDatabase_def by (rule reachable.start)
  from reachable.creation [OF this _ smith_created]
  have "reachable (emptyDatabase\<lparr>groups := [smithCreated]\<rparr>)"
    by (simp add: emptyDatabase_def)
  from reachable.membership [OF this, of "\<lambda>s. CHR ''@'' \<in> set s"
      "PostInvite (Some ''A'') ''g1'' ''B@Example.com'' 2"]
  have fresh: "reachable smithFresh"
    by (simp add: smithFresh_reachable)
  from reachable.membership [OF this, of "\<lambda>s. True"
      "PutMember (Some ''A'') ''g1'' ''B'' \<lparr>upd_role = Some Admin, upd_isActive = None\<rparr>"]
  have promoted: "reachable (snd (updateMember (Some ''A'') ''g1'' ''B''
          \<lparr>upd_role = Some Admin, upd_isActive = None\<rparr> smithFresh))"
    by simp
  from reachable.membership [OF promoted, of "\<lambda>s. True"
      "PutMember (Some ''A'') ''g1'' ''A'' \<lparr>upd_role = Some Member, upd_isActive = None\<rparr>"]
  have handover: "reachable smithAfterHandover"
    by (simp add: smithAfterHandover_reachable)
  from reachable.membership [OF promoted, of "\<lambda>s. True" "PostLeave (Some ''B'') ''g1''"]
  have former: "reachable smithFormerAdmin"
    by (simp add: smithFormerAdmin_reachable)
  from fresh handover former show ?thesis by blast
qed

end
